theory Spec2Isabelle
  imports Complex_Main
begin

section \<open>galpy: the Potential class and the functions that sum potentials\<close>

text \<open>
  A shallow embedding of \<^verbatim>\<open>galpy/potential_src/Potential.py\<close>: the class
  \<^verbatim>\<open>Potential\<close> with its five evaluation methods and \<^verbatim>\<open>normalize\<close>, the
  exception \<^verbatim>\<open>PotentialError\<close>, and the five module-level functions
  \<^verbatim>\<open>evaluatePotentials\<close>, \<^verbatim>\<open>evaluateDensities\<close>, \<^verbatim>\<open>evaluateRforces\<close>,
  \<^verbatim>\<open>evaluatephiforces\<close> and \<^verbatim>\<open>evaluatezforces\<close>. The plotting methods are not
  modelled.
\<close>

subsection \<open>Floating-point values\<close>

text \<open>
  A Python float is a finite number, one of the two infinities, or not-a-number. The
  finite numbers are taken as exact reals: rounding, overflow and underflow of finite
  results and the sign of zero are not modelled. The properties below therefore use
  of the finite arithmetic only what is exact on doubles as well: \<open>1. * x = x\<close>,
  \<open>0. + x = x\<close> and \<open>x * 0. = 0.\<close>; what a product or quotient of two other finite
  numbers is plays no part in them, and the concrete evaluations that go with them
  use small numbers whose sums and products are exact on doubles too. The special
  values follow IEEE 754, which is what
  Python and numpy compute with: \<open>inf * 0\<close> and \<open>inf - inf\<close> are not-a-number, and
  numpy's division of a float by zero returns an infinity (or not-a-number for
  \<open>0 / 0\<close>) with a warning instead of raising.
\<close>

datatype pyfloat = Fin real | PInf | NInf | NaN

fun is_finite :: "pyfloat \<Rightarrow> bool" where
  "is_finite (Fin a) = True"
| "is_finite PInf = False"
| "is_finite NInf = False"
| "is_finite NaN = False"

text \<open>An infinity with the sign of a nonzero real.\<close>

definition inf_of_sign :: "real \<Rightarrow> pyfloat" where
  "inf_of_sign a = (if 0 < a then PInf else NInf)"

text \<open>\<^verbatim>\<open>x * y\<close>\<close>

fun fmul :: "pyfloat \<Rightarrow> pyfloat \<Rightarrow> pyfloat" where
  "fmul (Fin a) (Fin b) = Fin (a * b)"
| "fmul (Fin a) PInf = (if a = 0 then NaN else inf_of_sign a)"
| "fmul (Fin a) NInf = (if a = 0 then NaN else inf_of_sign (- a))"
| "fmul PInf (Fin b) = (if b = 0 then NaN else inf_of_sign b)"
| "fmul NInf (Fin b) = (if b = 0 then NaN else inf_of_sign (- b))"
| "fmul PInf PInf = PInf"
| "fmul PInf NInf = NInf"
| "fmul NInf PInf = NInf"
| "fmul NInf NInf = PInf"
| "fmul NaN y = NaN"
| "fmul x NaN = NaN"

text \<open>\<^verbatim>\<open>x + y\<close>\<close>

fun fadd :: "pyfloat \<Rightarrow> pyfloat \<Rightarrow> pyfloat" where
  "fadd (Fin a) (Fin b) = Fin (a + b)"
| "fadd (Fin a) PInf = PInf"
| "fadd (Fin a) NInf = NInf"
| "fadd PInf (Fin b) = PInf"
| "fadd NInf (Fin b) = NInf"
| "fadd PInf PInf = PInf"
| "fadd NInf NInf = NInf"
| "fadd PInf NInf = NaN"
| "fadd NInf PInf = NaN"
| "fadd NaN y = NaN"
| "fadd x NaN = NaN"

text \<open>
  \<^verbatim>\<open>x / y\<close> where \<open>y\<close> is a numpy float. The only division of the source divides by
  the result of \<^verbatim>\<open>nu.fabs\<close>, whose zero is the positive zero; a zero divisor is read
  as the positive zero here.
\<close>

fun fdiv :: "pyfloat \<Rightarrow> pyfloat \<Rightarrow> pyfloat" where
  "fdiv (Fin a) (Fin b) =
     (if b = 0 then (if a = 0 then NaN else inf_of_sign a) else Fin (a / b))"
| "fdiv (Fin a) PInf = Fin 0"
| "fdiv (Fin a) NInf = Fin 0"
| "fdiv PInf (Fin b) = (if 0 \<le> b then PInf else NInf)"
| "fdiv NInf (Fin b) = (if 0 \<le> b then NInf else PInf)"
| "fdiv PInf PInf = NaN"
| "fdiv PInf NInf = NaN"
| "fdiv NInf PInf = NaN"
| "fdiv NInf NInf = NaN"
| "fdiv NaN y = NaN"
| "fdiv x NaN = NaN"

text \<open>\<^verbatim>\<open>nu.fabs(x)\<close>\<close>

fun fabs :: "pyfloat \<Rightarrow> pyfloat" where
  "fabs (Fin a) = Fin \<bar>a\<bar>"
| "fabs PInf = PInf"
| "fabs NInf = PInf"
| "fabs NaN = NaN"

subsection \<open>Exceptions\<close>

text \<open>
  \<^verbatim>\<open>PotentialError\<close> carries its message. The other three are the built-in
  exceptions the modelled code can run into: calling an object that is not callable
  (\<^verbatim>\<open>TypeError\<close>), reading a method an object does not have
  (\<^verbatim>\<open>AttributeError\<close>), and unpacking a tuple of the wrong length
  (\<^verbatim>\<open>ValueError\<close>).
\<close>

datatype pyerror = PotentialError string | TypeError | AttributeError | ValueError

subsection \<open>The class Potential\<close>

text \<open>
  A concrete potential is a subclass of \<^verbatim>\<open>Potential\<close> that defines some of the
  methods \<^verbatim>\<open>_evaluate\<close>, \<^verbatim>\<open>_Rforce\<close>, \<^verbatim>\<open>_zforce\<close>, \<^verbatim>\<open>_dens\<close> and
  \<^verbatim>\<open>_phiforce\<close>. The record \<open>variant\<close> holds what the subclass defines: \<open>None\<close>
  for a method it does not define, and otherwise the method as a function of the
  positional arguments \<^verbatim>\<open>*args\<close>, that is \<open>[R, z]\<close> or \<open>[R, z, phi]\<close>. A method a
  subclass defines is taken to return a float.
\<close>

record variant =
  raw_evaluate :: "(pyfloat list \<Rightarrow> pyfloat) option"
  raw_Rforce :: "(pyfloat list \<Rightarrow> pyfloat) option"
  raw_zforce :: "(pyfloat list \<Rightarrow> pyfloat) option"
  raw_dens :: "(pyfloat list \<Rightarrow> pyfloat) option"
  raw_phiforce :: "(pyfloat list \<Rightarrow> pyfloat) option"

text \<open>An instance: its class and the four attributes that \<^verbatim>\<open>__init__\<close> sets.\<close>

record potential =
  cls :: variant
  amp :: pyfloat
  dim :: int
  isRZ :: bool
  isNonAxi :: bool

text \<open>\<^verbatim>\<open>Potential.__init__(self, amp=1.)\<close>\<close>

definition Potential_init :: "variant \<Rightarrow> pyfloat \<Rightarrow> potential" where
  "Potential_init v a = \<lparr>cls = v, amp = a, dim = 3, isRZ = True, isNonAxi = False\<rparr>"

text \<open>
  \<^verbatim>\<open>Potential.__call__\<close>: looking up a method the subclass does not define raises
  \<^verbatim>\<open>AttributeError\<close>, which the \<^verbatim>\<open>except\<close> clause turns into a
  \<^verbatim>\<open>PotentialError\<close>.
\<close>

definition call :: "potential \<Rightarrow> pyfloat list \<Rightarrow> pyerror + pyfloat" where
  "call self args =
     (case raw_evaluate (cls self) of
        Some f \<Rightarrow> Inr (fmul (amp self) (f args))
      | None \<Rightarrow> Inl (PotentialError
          '''_evaluate' function not implemented for this potential''))"

text \<open>\<^verbatim>\<open>Potential.Rforce\<close>\<close>

definition Rforce :: "potential \<Rightarrow> pyfloat list \<Rightarrow> pyerror + pyfloat" where
  "Rforce self args =
     (case raw_Rforce (cls self) of
        Some f \<Rightarrow> Inr (fmul (amp self) (f args))
      | None \<Rightarrow> Inl (PotentialError
          '''_Rforce' function not implemented for this potential''))"

text \<open>\<^verbatim>\<open>Potential.zforce\<close>\<close>

definition zforce :: "potential \<Rightarrow> pyfloat list \<Rightarrow> pyerror + pyfloat" where
  "zforce self args =
     (case raw_zforce (cls self) of
        Some f \<Rightarrow> Inr (fmul (amp self) (f args))
      | None \<Rightarrow> Inl (PotentialError
          '''_zforce' function not implemented for this potential''))"

text \<open>\<^verbatim>\<open>Potential.dens\<close>\<close>

definition dens :: "potential \<Rightarrow> pyfloat list \<Rightarrow> pyerror + pyfloat" where
  "dens self args =
     (case raw_dens (cls self) of
        Some f \<Rightarrow> Inr (fmul (amp self) (f args))
      | None \<Rightarrow> Inl (PotentialError
          '''_dens' function not implemented for this potential''))"

text \<open>
  \<^verbatim>\<open>Potential._phiforce\<close>: the base class defines this method itself, returning
  \<^verbatim>\<open>0.\<close>, so the lookup \<^verbatim>\<open>self._phiforce\<close> finds the subclass's method when
  there is one and the base method otherwise.
\<close>

definition base_phiforce :: "pyfloat list \<Rightarrow> pyfloat" where
  "base_phiforce args = Fin 0"

definition lookup_phiforce :: "potential \<Rightarrow> (pyfloat list \<Rightarrow> pyfloat)" where
  "lookup_phiforce self =
     (case raw_phiforce (cls self) of Some f \<Rightarrow> f | None \<Rightarrow> base_phiforce)"

text \<open>
  \<^verbatim>\<open>Potential.phiforce\<close>: the lookup always succeeds, so the product is returned;
  the \<^verbatim>\<open>except AttributeError: return 0.\<close> clause is not reached.
\<close>

definition phiforce :: "potential \<Rightarrow> pyfloat list \<Rightarrow> pyerror + pyfloat" where
  "phiforce self args = Inr (fmul (amp self) (lookup_phiforce self args))"

text \<open>
  The argument \<^verbatim>\<open>norm\<close> of \<^verbatim>\<open>normalize\<close> is a float or a bool (the docstring:
  \<^verbatim>\<open>if True, norm=1\<close>); in the division a bool counts as \<open>1\<close> or \<open>0\<close>.
\<close>

datatype norm_arg = NormFloat pyfloat | NormBool bool

fun norm_value :: "norm_arg \<Rightarrow> pyfloat" where
  "norm_value (NormFloat x) = x"
| "norm_value (NormBool b) = (if b then Fin 1 else Fin 0)"

text \<open>
  \<^verbatim>\<open>Potential.normalize\<close>:
  \<^verbatim>\<open>self._amp*= norm/nu.fabs(self.Rforce(1.,0.))\<close>. The instance is mutated
  in place; the model returns it updated (\<open>nrm\<close> is the argument \<^verbatim>\<open>norm\<close>). The
  only exception is the one \<^verbatim>\<open>Rforce\<close> raises.
\<close>

definition normalize :: "potential \<Rightarrow> norm_arg \<Rightarrow> pyerror + potential" where
  "normalize self nrm =
     (case Rforce self [Fin 1, Fin 0] of
        Inl e \<Rightarrow> Inl e
      | Inr force \<Rightarrow>
          Inr (self\<lparr>amp := fmul (amp self) (fdiv (norm_value nrm) (fabs force))\<rparr>))"

subsection \<open>The functions that sum potentials\<close>

text \<open>
  What a caller can pass as \<^verbatim>\<open>Pot\<close>: a Potential instance, a list, a tuple, or
  some other Python value (a string, an integer, a float). A list or tuple holds
  arbitrary values.
\<close>

datatype pyval =
    PyPot potential
  | PyList "pyval list"
  | PyTuple "pyval list"
  | PyStr string
  | PyInt int
  | PyFloat pyfloat

text \<open>
  The loop body's call on one element of the list. \<^verbatim>\<open>pot(*args)\<close> on a value that
  is not callable raises \<^verbatim>\<open>TypeError\<close>; \<^verbatim>\<open>pot.dens\<close>, \<^verbatim>\<open>pot.Rforce\<close>,
  \<^verbatim>\<open>pot.phiforce\<close> and \<^verbatim>\<open>pot.zforce\<close> on a value without that method raise
  \<^verbatim>\<open>AttributeError\<close>. Neither is caught.
\<close>

fun elem_call :: "pyval \<Rightarrow> pyfloat list \<Rightarrow> pyerror + pyfloat" where
  "elem_call (PyPot p) args = call p args"
| "elem_call v args = Inl TypeError"

fun elem_dens :: "pyval \<Rightarrow> pyfloat list \<Rightarrow> pyerror + pyfloat" where
  "elem_dens (PyPot p) args = dens p args"
| "elem_dens v args = Inl AttributeError"

fun elem_Rforce :: "pyval \<Rightarrow> pyfloat list \<Rightarrow> pyerror + pyfloat" where
  "elem_Rforce (PyPot p) args = Rforce p args"
| "elem_Rforce v args = Inl AttributeError"

fun elem_phiforce :: "pyval \<Rightarrow> pyfloat list \<Rightarrow> pyerror + pyfloat" where
  "elem_phiforce (PyPot p) args = phiforce p args"
| "elem_phiforce v args = Inl AttributeError"

fun elem_zforce :: "pyval \<Rightarrow> pyfloat list \<Rightarrow> pyerror + pyfloat" where
  "elem_zforce (PyPot p) args = zforce p args"
| "elem_zforce v args = Inl AttributeError"

text \<open>
  The loop \<^verbatim>\<open>for pot in Pot: sum+= ...\<close> with the running \<^verbatim>\<open>sum\<close> as
  accumulator; an exception in the body ends the loop.
\<close>

fun sum_loop ::
  "(pyval \<Rightarrow> pyfloat list \<Rightarrow> pyerror + pyfloat) \<Rightarrow> pyfloat list \<Rightarrow> pyfloat \<Rightarrow> pyval list
     \<Rightarrow> pyerror + pyfloat" where
  "sum_loop body args acc [] = Inr acc"
| "sum_loop body args acc (pot # rest) =
     (case body pot args of
        Inl e \<Rightarrow> Inl e
      | Inr x \<Rightarrow> sum_loop body args (fadd acc x) rest)"

text \<open>
  Each function is called as \<^verbatim>\<open>f(R, z, Pot)\<close> or \<^verbatim>\<open>f(R, z, phi, Pot)\<close>. The
  model takes the positions \<open>pos\<close> and \<^verbatim>\<open>Pot\<close> apart, so the call has
  \<open>length pos + 1\<close> arguments. With four arguments \<^verbatim>\<open>hasphi\<close> holds; otherwise
  \<^verbatim>\<open>R,z,Pot= args\<close> needs exactly three and raises \<^verbatim>\<open>ValueError\<close> on any other
  number.
\<close>

definition evaluatePotentials :: "pyfloat list \<Rightarrow> pyval \<Rightarrow> pyerror + pyfloat" where
  "evaluatePotentials pos Pot =
     (if length pos + 1 = 4 \<or> length pos + 1 = 3 then
        (case Pot of
           PyList pots \<Rightarrow> sum_loop elem_call pos (Fin 0) pots
         | PyPot p \<Rightarrow> call p pos
         | _ \<Rightarrow> Inl (PotentialError
             ''Input to 'evaluatePotentials' is neither a Potential-instance or a list of such instances''))
      else Inl ValueError)"

definition evaluateDensities :: "pyfloat list \<Rightarrow> pyval \<Rightarrow> pyerror + pyfloat" where
  "evaluateDensities pos Pot =
     (if length pos + 1 = 4 \<or> length pos + 1 = 3 then
        (case Pot of
           PyList pots \<Rightarrow> sum_loop elem_dens pos (Fin 0) pots
         | PyPot p \<Rightarrow> dens p pos
         | _ \<Rightarrow> Inl (PotentialError
             ''Input to 'evaluateDensities' is neither a Potential-instance or a list of such instances''))
      else Inl ValueError)"

definition evaluateRforces :: "pyfloat list \<Rightarrow> pyval \<Rightarrow> pyerror + pyfloat" where
  "evaluateRforces pos Pot =
     (if length pos + 1 = 4 \<or> length pos + 1 = 3 then
        (case Pot of
           PyList pots \<Rightarrow> sum_loop elem_Rforce pos (Fin 0) pots
         | PyPot p \<Rightarrow> Rforce p pos
         | _ \<Rightarrow> Inl (PotentialError
             ''Input to 'evaluateRforces' is neither a Potential-instance or a list of such instances''))
      else Inl ValueError)"

definition evaluatephiforces :: "pyfloat list \<Rightarrow> pyval \<Rightarrow> pyerror + pyfloat" where
  "evaluatephiforces pos Pot =
     (if length pos + 1 = 4 \<or> length pos + 1 = 3 then
        (case Pot of
           PyList pots \<Rightarrow> sum_loop elem_phiforce pos (Fin 0) pots
         | PyPot p \<Rightarrow> phiforce p pos
         | _ \<Rightarrow> Inl (PotentialError
             ''Input to 'evaluatephiforces' is neither a Potential-instance or a list of such instances''))
      else Inl ValueError)"

definition evaluatezforces :: "pyfloat list \<Rightarrow> pyval \<Rightarrow> pyerror + pyfloat" where
  "evaluatezforces pos Pot =
     (if length pos + 1 = 4 \<or> length pos + 1 = 3 then
        (case Pot of
           PyList pots \<Rightarrow> sum_loop elem_zforce pos (Fin 0) pots
         | PyPot p \<Rightarrow> zforce p pos
         | _ \<Rightarrow> Inl (PotentialError
             ''Input to 'evaluatezforces' is neither a Potential-instance or a list of such instances''))
      else Inl ValueError)"

subsection \<open>Three example potentials\<close>

text \<open>
  Three subclasses for the concrete evaluations below. \<open>at_R_z g\<close> is a method that
  reads \<^verbatim>\<open>R\<close> and \<^verbatim>\<open>z\<close> from its arguments and returns \<open>g R z\<close>. \<open>harmonic\<close>
  is the potential \<open>(R\<^sup>2 + z\<^sup>2) / 2\<close> with its forces and a constant density;
  \<open>flat\<close> is a constant potential, whose forces vanish everywhere, and it defines
  no density. Neither defines \<^verbatim>\<open>_phiforce\<close>. \<open>bare\<close> defines none of the five
  methods, as the class \<^verbatim>\<open>Potential\<close> itself.
\<close>

definition at_R_z :: "(real \<Rightarrow> real \<Rightarrow> real) \<Rightarrow> pyfloat list \<Rightarrow> pyfloat" where
  "at_R_z g args = (case args of Fin R # Fin z # rest \<Rightarrow> Fin (g R z) | _ \<Rightarrow> NaN)"

definition harmonic :: variant where
  "harmonic = \<lparr>raw_evaluate = Some (at_R_z (\<lambda>R z. (R * R + z * z) / 2)),
               raw_Rforce = Some (at_R_z (\<lambda>R z. - R)),
               raw_zforce = Some (at_R_z (\<lambda>R z. - z)),
               raw_dens = Some (at_R_z (\<lambda>R z. 3)),
               raw_phiforce = None\<rparr>"

definition flat :: variant where
  "flat = \<lparr>raw_evaluate = Some (at_R_z (\<lambda>R z. 1)),
           raw_Rforce = Some (at_R_z (\<lambda>R z. 0)),
           raw_zforce = Some (at_R_z (\<lambda>R z. 0)),
           raw_dens = None,
           raw_phiforce = None\<rparr>"

definition bare :: variant where
  "bare = \<lparr>raw_evaluate = None, raw_Rforce = None, raw_zforce = None, raw_dens = None,
           raw_phiforce = None\<rparr>"

section \<open>Properties\<close>

subsection \<open>Arithmetic and lookup facts\<close>

lemmas example_defs = harmonic_def flat_def at_R_z_def Potential_init_def

lemmas method_defs = call_def Rforce_def zforce_def dens_def phiforce_def lookup_phiforce_def
  base_phiforce_def

lemmas compose_defs = evaluatePotentials_def evaluateDensities_def evaluateRforces_def
  evaluatephiforces_def evaluatezforces_def

lemma fadd_zero_left: "fadd (Fin 0) x = x"
  by (cases x) simp_all

lemma fmul_one_left: "fmul (Fin 1) x = x"
  by (cases x) (simp_all add: inf_of_sign_def)

lemma sum_loop_dens_missing:
  "p \<in> set ps \<Longrightarrow> raw_dens (cls p) = None \<Longrightarrow>
   sum_loop elem_dens args acc (map PyPot ps) =
     Inl (PotentialError '''_dens' function not implemented for this potential'')"
  by (induction ps arbitrary: acc) (auto simp: dens_def split: option.splits)

lemma fdiv_zero_not_finite: "\<not> is_finite (fdiv x (Fin 0))"
  by (cases x) (simp_all add: inf_of_sign_def)

lemma fmul_not_finite: "\<not> is_finite y \<Longrightarrow> \<not> is_finite (fmul x y)"
  by (cases x; cases y) (simp_all add: inf_of_sign_def)

subsection \<open>Normalisation\<close>

text \<open>
  What \<^verbatim>\<open>normalize\<close> stores when \<^verbatim>\<open>Rforce(1., 0.)\<close> returns, and that
  \<^verbatim>\<open>True\<close> is read as \<open>1.0\<close>.
\<close>

lemma normalize_update:
  "Rforce p [Fin 1, Fin 0] = Inr force \<Longrightarrow>
   normalize p nrm = Inr (p\<lparr>amp := fmul (amp p) (fdiv (norm_value nrm) (fabs force))\<rparr>)"
  by (simp add: normalize_def)

lemma normalize_True: "normalize p (NormBool True) = normalize p (NormFloat (Fin 1))"
  by (simp add: normalize_def split: sum.splits)

text \<open>
  C8 (as amended). For every potential whose radial force at \<open>(R = 1, z = 0)\<close> is
  zero, \<^verbatim>\<open>normalize\<close> raises nothing and stores a non-finite amplitude, the old
  amplitude times \<open>norm / 0.\<close>. \<^verbatim>\<open>normalize\<close> raises \<^verbatim>\<open>PotentialError\<close> when the
  subclass defines no \<^verbatim>\<open>_Rforce\<close>.
\<close>

theorem normalize_zero_force:
  "(Rforce p [Fin 1, Fin 0] = Inr (Fin 0) \<longrightarrow>
      normalize p nrm = Inr (p\<lparr>amp := fmul (amp p) (fdiv (norm_value nrm) (Fin 0))\<rparr>)
      \<and> \<not> is_finite (fmul (amp p) (fdiv (norm_value nrm) (Fin 0))))
   \<and> (raw_Rforce (cls q) = None \<longrightarrow>
      normalize q nrm =
        Inl (PotentialError '''_Rforce' function not implemented for this potential''))"
proof -
  have zero: "Rforce p [Fin 1, Fin 0] = Inr (Fin 0) \<longrightarrow>
      normalize p nrm = Inr (p\<lparr>amp := fmul (amp p) (fdiv (norm_value nrm) (Fin 0))\<rparr>)
      \<and> \<not> is_finite (fmul (amp p) (fdiv (norm_value nrm) (Fin 0)))"
    by (simp add: normalize_update fmul_not_finite fdiv_zero_not_finite)
  have missing: "raw_Rforce (cls q) = None \<longrightarrow>
      normalize q nrm =
        Inl (PotentialError '''_Rforce' function not implemented for this potential'')"
    by (simp add: normalize_def Rforce_def)
  from zero missing show ?thesis by blast
qed

text \<open>
  The theorem at \<open>flat\<close> with amplitude \<open>3\<close>, whose force vanishes, normalised with
  \<^verbatim>\<open>normalize(0.5)\<close>, and at \<open>bare\<close>, which defines no \<^verbatim>\<open>_Rforce\<close>.
\<close>

theorem normalize_zero_force_witness:
  "Rforce (Potential_init flat (Fin 3)) [Fin 1, Fin 0] = Inr (Fin 0)
   \<and> normalize (Potential_init flat (Fin 3)) (NormFloat (Fin (1 / 2))) = Inr (Potential_init flat PInf)
   \<and> \<not> is_finite PInf
   \<and> raw_Rforce (cls (Potential_init bare (Fin 1))) = None
   \<and> normalize (Potential_init bare (Fin 1)) (NormFloat (Fin (1 / 2))) =
       Inl (PotentialError '''_Rforce' function not implemented for this potential'')"
proof -
  have h: "Rforce (Potential_init flat (Fin 3)) [Fin 1, Fin 0] = Inr (Fin 0)"
    "raw_Rforce (cls (Potential_init bare (Fin 1))) = None"
    by (simp_all add: Rforce_def example_defs bare_def)
  have e: "Potential_init flat (Fin 3)\<lparr>amp := fmul (amp (Potential_init flat (Fin 3)))
      (fdiv (norm_value (NormFloat (Fin (1 / 2)))) (Fin 0))\<rparr> = Potential_init flat PInf"
    by (simp add: Potential_init_def inf_of_sign_def)
  show ?thesis
    using normalize_zero_force [of "Potential_init flat (Fin 3)" "NormFloat (Fin (1 / 2))"
        "Potential_init bare (Fin 1)"] h e
    by simp
qed

text \<open>
  The claim as first stated, that \<^verbatim>\<open>normalize\<close> raises \<^verbatim>\<open>PotentialError\<close> when the
  force at the reference point is zero, fails: on \<open>flat\<close> with amplitude \<open>1\<close>,
  \<^verbatim>\<open>normalize(1.0)\<close> returns and leaves the amplitude \<open>inf\<close>.
\<close>

theorem normalize_zero_force_counterexample:
  "Rforce (Potential_init flat (Fin 1)) [Fin 1, Fin 0] = Inr (Fin 0)
   \<and> normalize (Potential_init flat (Fin 1)) (NormFloat (Fin 1)) = Inr (Potential_init flat PInf)
   \<and> \<not> is_finite (amp (Potential_init flat PInf))"
  by (simp add: normalize_def Rforce_def example_defs inf_of_sign_def)

subsection \<open>Amplitude\<close>

text \<open>
  C2. For every subclass \<open>v\<close>, every amplitude \<open>k\<close> (in particular every \<open>k > 0\<close>)
  and every position \<open>args\<close>: whenever the instance built with amplitude \<open>1\<close> returns a
  value from \<^verbatim>\<open>__call__\<close>, \<^verbatim>\<open>Rforce\<close>, \<^verbatim>\<open>zforce\<close>, \<^verbatim>\<open>phiforce\<close> or
  \<^verbatim>\<open>dens\<close>, the instance built with amplitude \<open>k\<close> returns \<open>k\<close> times that value.
\<close>

theorem amplitude_linear:
  "(call (Potential_init v (Fin 1)) args = Inr y1 \<longrightarrow>
      call (Potential_init v k) args = Inr (fmul k y1))
   \<and> (Rforce (Potential_init v (Fin 1)) args = Inr y2 \<longrightarrow>
      Rforce (Potential_init v k) args = Inr (fmul k y2))
   \<and> (zforce (Potential_init v (Fin 1)) args = Inr y3 \<longrightarrow>
      zforce (Potential_init v k) args = Inr (fmul k y3))
   \<and> (phiforce (Potential_init v (Fin 1)) args = Inr y4 \<longrightarrow>
      phiforce (Potential_init v k) args = Inr (fmul k y4))
   \<and> (dens (Potential_init v (Fin 1)) args = Inr y5 \<longrightarrow>
      dens (Potential_init v k) args = Inr (fmul k y5))"
  by (auto simp: method_defs Potential_init_def fmul_one_left split: option.splits)

text \<open>
  The theorem at \<open>harmonic\<close>, \<open>k = 2\<close> and \<open>(R, z) = (3, 4)\<close>: all five operations
  return a value at amplitude \<open>1\<close>, and twice that value at amplitude \<open>2\<close>.
\<close>

theorem amplitude_linear_witness:
  "call (Potential_init harmonic (Fin 1)) [Fin 3, Fin 4] = Inr (Fin (25 / 2))
   \<and> call (Potential_init harmonic (Fin 2)) [Fin 3, Fin 4] = Inr (fmul (Fin 2) (Fin (25 / 2)))
   \<and> Rforce (Potential_init harmonic (Fin 1)) [Fin 3, Fin 4] = Inr (Fin (- 3))
   \<and> Rforce (Potential_init harmonic (Fin 2)) [Fin 3, Fin 4] = Inr (fmul (Fin 2) (Fin (- 3)))
   \<and> zforce (Potential_init harmonic (Fin 1)) [Fin 3, Fin 4] = Inr (Fin (- 4))
   \<and> zforce (Potential_init harmonic (Fin 2)) [Fin 3, Fin 4] = Inr (fmul (Fin 2) (Fin (- 4)))
   \<and> phiforce (Potential_init harmonic (Fin 1)) [Fin 3, Fin 4] = Inr (Fin 0)
   \<and> phiforce (Potential_init harmonic (Fin 2)) [Fin 3, Fin 4] = Inr (fmul (Fin 2) (Fin 0))
   \<and> dens (Potential_init harmonic (Fin 1)) [Fin 3, Fin 4] = Inr (Fin 3)
   \<and> dens (Potential_init harmonic (Fin 2)) [Fin 3, Fin 4] = Inr (fmul (Fin 2) (Fin 3))"
proof -
  have h: "call (Potential_init harmonic (Fin 1)) [Fin 3, Fin 4] = Inr (Fin (25 / 2))"
    "Rforce (Potential_init harmonic (Fin 1)) [Fin 3, Fin 4] = Inr (Fin (- 3))"
    "zforce (Potential_init harmonic (Fin 1)) [Fin 3, Fin 4] = Inr (Fin (- 4))"
    "phiforce (Potential_init harmonic (Fin 1)) [Fin 3, Fin 4] = Inr (Fin 0)"
    "dens (Potential_init harmonic (Fin 1)) [Fin 3, Fin 4] = Inr (Fin 3)"
    by (simp_all add: method_defs example_defs)
  show ?thesis
    using amplitude_linear [of harmonic "[Fin 3, Fin 4]" "Fin (25 / 2)" "Fin 2" "Fin (- 3)"
        "Fin (- 4)" "Fin 0" "Fin 3"] h
    by simp
qed

subsection \<open>Sums over a list\<close>

text \<open>
  C3. For all potentials \<open>P1\<close>, \<open>P2\<close> and every position: when
  \<^verbatim>\<open>evaluatePotentials\<close> returns \<open>a\<close> on \<open>P1\<close> alone and \<open>b\<close> on \<open>P2\<close> alone, it
  returns \<open>a + b\<close> on the list \<^verbatim>\<open>[P1, P2]\<close>; the same holds for
  \<^verbatim>\<open>evaluateDensities\<close>, \<^verbatim>\<open>evaluateRforces\<close>, \<^verbatim>\<open>evaluatephiforces\<close> and
  \<^verbatim>\<open>evaluatezforces\<close>. The loop starts from \<open>0.\<close>, and \<open>0. + a\<close> is \<open>a\<close>.
\<close>

theorem composition_additive:
  "(evaluatePotentials pos (PyPot p1) = Inr a1 \<longrightarrow> evaluatePotentials pos (PyPot p2) = Inr b1 \<longrightarrow>
      evaluatePotentials pos (PyList [PyPot p1, PyPot p2]) = Inr (fadd a1 b1))
   \<and> (evaluateDensities pos (PyPot p1) = Inr a2 \<longrightarrow> evaluateDensities pos (PyPot p2) = Inr b2 \<longrightarrow>
      evaluateDensities pos (PyList [PyPot p1, PyPot p2]) = Inr (fadd a2 b2))
   \<and> (evaluateRforces pos (PyPot p1) = Inr a3 \<longrightarrow> evaluateRforces pos (PyPot p2) = Inr b3 \<longrightarrow>
      evaluateRforces pos (PyList [PyPot p1, PyPot p2]) = Inr (fadd a3 b3))
   \<and> (evaluatephiforces pos (PyPot p1) = Inr a4 \<longrightarrow> evaluatephiforces pos (PyPot p2) = Inr b4 \<longrightarrow>
      evaluatephiforces pos (PyList [PyPot p1, PyPot p2]) = Inr (fadd a4 b4))
   \<and> (evaluatezforces pos (PyPot p1) = Inr a5 \<longrightarrow> evaluatezforces pos (PyPot p2) = Inr b5 \<longrightarrow>
      evaluatezforces pos (PyList [PyPot p1, PyPot p2]) = Inr (fadd a5 b5))"
  by (simp add: compose_defs fadd_zero_left split: if_splits)

text \<open>
  The theorem at \<open>(R, z) = (3, 4)\<close>: \<open>harmonic\<close> and \<open>flat\<close> for the potential,
  \<open>harmonic\<close> with amplitudes \<open>1\<close> and \<open>2\<close> for the density and the three forces.
\<close>

theorem composition_additive_witness:
  "evaluatePotentials [Fin 3, Fin 4] (PyPot (Potential_init harmonic (Fin 1))) = Inr (Fin (25 / 2))
   \<and> evaluatePotentials [Fin 3, Fin 4] (PyPot (Potential_init flat (Fin 2))) = Inr (Fin 2)
   \<and> evaluatePotentials [Fin 3, Fin 4]
        (PyList [PyPot (Potential_init harmonic (Fin 1)), PyPot (Potential_init flat (Fin 2))])
       = Inr (Fin (29 / 2))
   \<and> evaluateDensities [Fin 3, Fin 4] (PyPot (Potential_init harmonic (Fin 1))) = Inr (Fin 3)
   \<and> evaluateDensities [Fin 3, Fin 4] (PyPot (Potential_init harmonic (Fin 2))) = Inr (Fin 6)
   \<and> evaluateDensities [Fin 3, Fin 4]
        (PyList [PyPot (Potential_init harmonic (Fin 1)), PyPot (Potential_init harmonic (Fin 2))])
       = Inr (Fin 9)
   \<and> evaluateRforces [Fin 3, Fin 4] (PyPot (Potential_init harmonic (Fin 1))) = Inr (Fin (- 3))
   \<and> evaluateRforces [Fin 3, Fin 4] (PyPot (Potential_init harmonic (Fin 2))) = Inr (Fin (- 6))
   \<and> evaluateRforces [Fin 3, Fin 4]
        (PyList [PyPot (Potential_init harmonic (Fin 1)), PyPot (Potential_init harmonic (Fin 2))])
       = Inr (Fin (- 9))
   \<and> evaluatephiforces [Fin 3, Fin 4] (PyPot (Potential_init harmonic (Fin 1))) = Inr (Fin 0)
   \<and> evaluatephiforces [Fin 3, Fin 4] (PyPot (Potential_init harmonic (Fin 2))) = Inr (Fin 0)
   \<and> evaluatephiforces [Fin 3, Fin 4]
        (PyList [PyPot (Potential_init harmonic (Fin 1)), PyPot (Potential_init harmonic (Fin 2))])
       = Inr (Fin 0)
   \<and> evaluatezforces [Fin 3, Fin 4] (PyPot (Potential_init harmonic (Fin 1))) = Inr (Fin (- 4))
   \<and> evaluatezforces [Fin 3, Fin 4] (PyPot (Potential_init harmonic (Fin 2))) = Inr (Fin (- 8))
   \<and> evaluatezforces [Fin 3, Fin 4]
        (PyList [PyPot (Potential_init harmonic (Fin 1)), PyPot (Potential_init harmonic (Fin 2))])
       = Inr (Fin (- 12))"
proof -
  have h1: "evaluatePotentials [Fin 3, Fin 4] (PyPot (Potential_init harmonic (Fin 1))) = Inr (Fin (25 / 2))"
    "evaluatePotentials [Fin 3, Fin 4] (PyPot (Potential_init flat (Fin 2))) = Inr (Fin 2)"
    by (simp_all add: compose_defs method_defs example_defs)
  have h2: "evaluateDensities [Fin 3, Fin 4] (PyPot (Potential_init harmonic (Fin 1))) = Inr (Fin 3)"
    "evaluateDensities [Fin 3, Fin 4] (PyPot (Potential_init harmonic (Fin 2))) = Inr (Fin 6)"
    "evaluateRforces [Fin 3, Fin 4] (PyPot (Potential_init harmonic (Fin 1))) = Inr (Fin (- 3))"
    "evaluateRforces [Fin 3, Fin 4] (PyPot (Potential_init harmonic (Fin 2))) = Inr (Fin (- 6))"
    "evaluatephiforces [Fin 3, Fin 4] (PyPot (Potential_init harmonic (Fin 1))) = Inr (Fin 0)"
    "evaluatephiforces [Fin 3, Fin 4] (PyPot (Potential_init harmonic (Fin 2))) = Inr (Fin 0)"
    "evaluatezforces [Fin 3, Fin 4] (PyPot (Potential_init harmonic (Fin 1))) = Inr (Fin (- 4))"
    "evaluatezforces [Fin 3, Fin 4] (PyPot (Potential_init harmonic (Fin 2))) = Inr (Fin (- 8))"
    by (simp_all add: compose_defs method_defs example_defs)
  show ?thesis
    using composition_additive [of "[Fin 3, Fin 4]" "Potential_init harmonic (Fin 1)"
        "Fin (25 / 2)" "Potential_init flat (Fin 2)" "Fin 2"]
      composition_additive [of "[Fin 3, Fin 4]" "Potential_init harmonic (Fin 1)" _
        "Potential_init harmonic (Fin 2)" _ "Fin 3" "Fin 6" "Fin (- 3)" "Fin (- 6)" "Fin 0" "Fin 0"
        "Fin (- 4)" "Fin (- 8)"] h1 h2
    by simp
qed

text \<open>
  C4. For every potential \<open>P\<close> and every position, each of the five functions
  returns on the one-element list \<^verbatim>\<open>[P]\<close> what it returns on \<open>P\<close> itself: the same
  value, or the same exception.
\<close>

theorem single_element_list:
  "evaluatePotentials pos (PyList [PyPot p]) = evaluatePotentials pos (PyPot p)
   \<and> evaluateDensities pos (PyList [PyPot p]) = evaluateDensities pos (PyPot p)
   \<and> evaluateRforces pos (PyList [PyPot p]) = evaluateRforces pos (PyPot p)
   \<and> evaluatephiforces pos (PyList [PyPot p]) = evaluatephiforces pos (PyPot p)
   \<and> evaluatezforces pos (PyList [PyPot p]) = evaluatezforces pos (PyPot p)"
  by (simp add: compose_defs fadd_zero_left split: sum.splits)

text \<open>
  C9. For every position, with or without \<^verbatim>\<open>phi\<close>, each of the five functions
  returns \<open>0.0\<close> on the empty list and raises nothing.
\<close>

theorem empty_list_zero:
  "evaluatePotentials [R, z] (PyList []) = Inr (Fin 0)
   \<and> evaluatePotentials [R, z, phi] (PyList []) = Inr (Fin 0)
   \<and> evaluateDensities [R, z] (PyList []) = Inr (Fin 0)
   \<and> evaluateDensities [R, z, phi] (PyList []) = Inr (Fin 0)
   \<and> evaluateRforces [R, z] (PyList []) = Inr (Fin 0)
   \<and> evaluateRforces [R, z, phi] (PyList []) = Inr (Fin 0)
   \<and> evaluatephiforces [R, z] (PyList []) = Inr (Fin 0)
   \<and> evaluatephiforces [R, z, phi] (PyList []) = Inr (Fin 0)
   \<and> evaluatezforces [R, z] (PyList []) = Inr (Fin 0)
   \<and> evaluatezforces [R, z, phi] (PyList []) = Inr (Fin 0)"
  by (simp add: compose_defs)

subsection \<open>Methods a subclass does not define\<close>

text \<open>
  C5. A potential whose subclass does not define \<^verbatim>\<open>_dens\<close> raises
  \<^verbatim>\<open>PotentialError\<close> from \<^verbatim>\<open>dens\<close>, with a message that names \<^verbatim>\<open>_dens\<close>, and
  \<^verbatim>\<open>evaluateDensities\<close> on a list of potentials that contains one raises the same
  error, with or without \<^verbatim>\<open>phi\<close>. Likewise \<^verbatim>\<open>__call__\<close>, \<^verbatim>\<open>Rforce\<close> and
  \<^verbatim>\<open>zforce\<close> raise \<^verbatim>\<open>PotentialError\<close> naming \<^verbatim>\<open>_evaluate\<close>, \<^verbatim>\<open>_Rforce\<close> and
  \<^verbatim>\<open>_zforce\<close>. Each of the four raises if and only if its raw method is missing.
\<close>

theorem not_implemented_raises:
  "(raw_dens (cls p) = None \<longrightarrow>
      dens p args = Inl (PotentialError '''_dens' function not implemented for this potential''))
   \<and> (p \<in> set ps \<longrightarrow> raw_dens (cls p) = None \<longrightarrow>
      evaluateDensities [R, z] (PyList (map PyPot ps)) =
        Inl (PotentialError '''_dens' function not implemented for this potential'')
      \<and> evaluateDensities [R, z, phi] (PyList (map PyPot ps)) =
        Inl (PotentialError '''_dens' function not implemented for this potential''))
   \<and> (raw_evaluate (cls p) = None \<longrightarrow>
      call p args = Inl (PotentialError '''_evaluate' function not implemented for this potential''))
   \<and> (raw_Rforce (cls p) = None \<longrightarrow>
      Rforce p args = Inl (PotentialError '''_Rforce' function not implemented for this potential''))
   \<and> (raw_zforce (cls p) = None \<longrightarrow>
      zforce p args = Inl (PotentialError '''_zforce' function not implemented for this potential''))
   \<and> ((\<exists>e. dens p args = Inl e) \<longleftrightarrow> raw_dens (cls p) = None)
   \<and> ((\<exists>e. call p args = Inl e) \<longleftrightarrow> raw_evaluate (cls p) = None)
   \<and> ((\<exists>e. Rforce p args = Inl e) \<longleftrightarrow> raw_Rforce (cls p) = None)
   \<and> ((\<exists>e. zforce p args = Inl e) \<longleftrightarrow> raw_zforce (cls p) = None)"
proof -
  have lists: "p \<in> set ps \<longrightarrow> raw_dens (cls p) = None \<longrightarrow>
      evaluateDensities [R, z] (PyList (map PyPot ps)) =
        Inl (PotentialError '''_dens' function not implemented for this potential'')
      \<and> evaluateDensities [R, z, phi] (PyList (map PyPot ps)) =
        Inl (PotentialError '''_dens' function not implemented for this potential'')"
    by (simp add: evaluateDensities_def sum_loop_dens_missing)
  have single: "(raw_dens (cls p) = None \<longrightarrow>
      dens p args = Inl (PotentialError '''_dens' function not implemented for this potential''))
   \<and> (raw_evaluate (cls p) = None \<longrightarrow>
      call p args = Inl (PotentialError '''_evaluate' function not implemented for this potential''))
   \<and> (raw_Rforce (cls p) = None \<longrightarrow>
      Rforce p args = Inl (PotentialError '''_Rforce' function not implemented for this potential''))
   \<and> (raw_zforce (cls p) = None \<longrightarrow>
      zforce p args = Inl (PotentialError '''_zforce' function not implemented for this potential''))"
    by (simp add: method_defs)
  have iffs: "((\<exists>e. dens p args = Inl e) \<longleftrightarrow> raw_dens (cls p) = None)
   \<and> ((\<exists>e. call p args = Inl e) \<longleftrightarrow> raw_evaluate (cls p) = None)
   \<and> ((\<exists>e. Rforce p args = Inl e) \<longleftrightarrow> raw_Rforce (cls p) = None)
   \<and> ((\<exists>e. zforce p args = Inl e) \<longleftrightarrow> raw_zforce (cls p) = None)"
    by (auto simp: method_defs split: option.splits)
  from lists single iffs show ?thesis by blast
qed

text \<open>
  The theorem at \<open>flat\<close>, which defines no density, alone and in the list
  \<^verbatim>\<open>[harmonic, flat]\<close>, and at \<open>bare\<close>, which defines none of the other three.
\<close>

theorem not_implemented_raises_witness:
  "raw_dens (cls (Potential_init flat (Fin 1))) = None
   \<and> dens (Potential_init flat (Fin 1)) [Fin 1, Fin 0] =
       Inl (PotentialError '''_dens' function not implemented for this potential'')
   \<and> Potential_init flat (Fin 1) \<in> set [Potential_init harmonic (Fin 1), Potential_init flat (Fin 1)]
   \<and> evaluateDensities [Fin 1, Fin 0]
        (PyList (map PyPot [Potential_init harmonic (Fin 1), Potential_init flat (Fin 1)])) =
       Inl (PotentialError '''_dens' function not implemented for this potential'')
   \<and> raw_evaluate (cls (Potential_init bare (Fin 1))) = None
   \<and> call (Potential_init bare (Fin 1)) [Fin 1, Fin 0] =
       Inl (PotentialError '''_evaluate' function not implemented for this potential'')
   \<and> raw_Rforce (cls (Potential_init bare (Fin 1))) = None
   \<and> Rforce (Potential_init bare (Fin 1)) [Fin 1, Fin 0] =
       Inl (PotentialError '''_Rforce' function not implemented for this potential'')
   \<and> raw_zforce (cls (Potential_init bare (Fin 1))) = None
   \<and> zforce (Potential_init bare (Fin 1)) [Fin 1, Fin 0] =
       Inl (PotentialError '''_zforce' function not implemented for this potential'')"
proof -
  have h: "raw_dens (cls (Potential_init flat (Fin 1))) = None"
    "Potential_init flat (Fin 1) \<in> set [Potential_init harmonic (Fin 1), Potential_init flat (Fin 1)]"
    "raw_evaluate (cls (Potential_init bare (Fin 1))) = None"
    "raw_Rforce (cls (Potential_init bare (Fin 1))) = None"
    "raw_zforce (cls (Potential_init bare (Fin 1))) = None"
    by (simp_all add: example_defs bare_def)
  show ?thesis
    using not_implemented_raises [of "Potential_init flat (Fin 1)" "[Fin 1, Fin 0]"
        "[Potential_init harmonic (Fin 1), Potential_init flat (Fin 1)]" "Fin 1" "Fin 0"]
      not_implemented_raises [of "Potential_init bare (Fin 1)" "[Fin 1, Fin 0]"] h
    by simp
qed

text \<open>
  C6. For every potential whose subclass defines no \<^verbatim>\<open>_phiforce\<close> and every
  position, \<^verbatim>\<open>phiforce\<close> returns \<open>0.0\<close> and never raises; the amplitude is finite,
  as the data model has it, and the value returned is the amplitude times the base
  method's \<open>0.\<close>. It is the only evaluation method that returns a value when its raw
  method is missing: \<^verbatim>\<open>__call__\<close>, \<^verbatim>\<open>Rforce\<close>, \<^verbatim>\<open>zforce\<close> and \<^verbatim>\<open>dens\<close>
  raise \<^verbatim>\<open>PotentialError\<close>.
\<close>

theorem phiforce_default:
  "(raw_phiforce (cls p) = None \<longrightarrow> is_finite (amp p) \<longrightarrow> phiforce p args = Inr (Fin 0))
   \<and> (\<exists>y. phiforce p args = Inr y)
   \<and> (raw_evaluate (cls p) = None \<longrightarrow> (\<exists>m. call p args = Inl (PotentialError m)))
   \<and> (raw_Rforce (cls p) = None \<longrightarrow> (\<exists>m. Rforce p args = Inl (PotentialError m)))
   \<and> (raw_zforce (cls p) = None \<longrightarrow> (\<exists>m. zforce p args = Inl (PotentialError m)))
   \<and> (raw_dens (cls p) = None \<longrightarrow> (\<exists>m. dens p args = Inl (PotentialError m)))"
proof -
  have zero: "raw_phiforce (cls p) = None \<longrightarrow> is_finite (amp p) \<longrightarrow> phiforce p args = Inr (Fin 0)"
    by (cases "amp p") (simp_all add: phiforce_def lookup_phiforce_def base_phiforce_def)
  have total: "\<exists>y. phiforce p args = Inr y"
    by (simp add: phiforce_def)
  have others: "(raw_evaluate (cls p) = None \<longrightarrow> (\<exists>m. call p args = Inl (PotentialError m)))
   \<and> (raw_Rforce (cls p) = None \<longrightarrow> (\<exists>m. Rforce p args = Inl (PotentialError m)))
   \<and> (raw_zforce (cls p) = None \<longrightarrow> (\<exists>m. zforce p args = Inl (PotentialError m)))
   \<and> (raw_dens (cls p) = None \<longrightarrow> (\<exists>m. dens p args = Inl (PotentialError m)))"
    by (simp add: method_defs)
  from zero total others show ?thesis by blast
qed

text \<open>
  The theorem at \<open>bare\<close> with amplitude \<open>2\<close> and \<open>(R, z, phi) = (1, 0, 3)\<close>.
\<close>

theorem phiforce_default_witness:
  "raw_phiforce (cls (Potential_init bare (Fin 2))) = None
   \<and> is_finite (amp (Potential_init bare (Fin 2)))
   \<and> phiforce (Potential_init bare (Fin 2)) [Fin 1, Fin 0, Fin 3] = Inr (Fin 0)
   \<and> raw_evaluate (cls (Potential_init bare (Fin 2))) = None
   \<and> raw_Rforce (cls (Potential_init bare (Fin 2))) = None
   \<and> raw_zforce (cls (Potential_init bare (Fin 2))) = None
   \<and> raw_dens (cls (Potential_init bare (Fin 2))) = None
   \<and> (\<exists>m. call (Potential_init bare (Fin 2)) [Fin 1, Fin 0, Fin 3] = Inl (PotentialError m))
   \<and> (\<exists>m. Rforce (Potential_init bare (Fin 2)) [Fin 1, Fin 0, Fin 3] = Inl (PotentialError m))
   \<and> (\<exists>m. zforce (Potential_init bare (Fin 2)) [Fin 1, Fin 0, Fin 3] = Inl (PotentialError m))
   \<and> (\<exists>m. dens (Potential_init bare (Fin 2)) [Fin 1, Fin 0, Fin 3] = Inl (PotentialError m))"
proof -
  have h: "raw_phiforce (cls (Potential_init bare (Fin 2))) = None"
    "is_finite (amp (Potential_init bare (Fin 2)))"
    "raw_evaluate (cls (Potential_init bare (Fin 2))) = None"
    "raw_Rforce (cls (Potential_init bare (Fin 2))) = None"
    "raw_zforce (cls (Potential_init bare (Fin 2))) = None"
    "raw_dens (cls (Potential_init bare (Fin 2))) = None"
    by (simp_all add: Potential_init_def bare_def)
  show ?thesis
    using phiforce_default [of "Potential_init bare (Fin 2)" "[Fin 1, Fin 0, Fin 3]"] h
    by simp
qed

subsection \<open>What is accepted as Pot\<close>

text \<open>
  C7 (as amended). For each of the five functions, every position with or without
  \<^verbatim>\<open>phi\<close>, and every \<^verbatim>\<open>Pot\<close> that is neither a Potential instance nor a list
  (whatever the list holds), the call raises \<^verbatim>\<open>PotentialError\<close> with a message that
  names the function and says that the input is neither a Potential instance nor a
  list of such instances.
\<close>

theorem invalid_input_rejected:
  assumes "\<forall>p. Pot \<noteq> PyPot p" and "\<forall>pots. Pot \<noteq> PyList pots"
  shows "evaluatePotentials [R, z] Pot = Inl (PotentialError
     ''Input to 'evaluatePotentials' is neither a Potential-instance or a list of such instances'')
   \<and> evaluatePotentials [R, z, phi] Pot = Inl (PotentialError
     ''Input to 'evaluatePotentials' is neither a Potential-instance or a list of such instances'')
   \<and> evaluateDensities [R, z] Pot = Inl (PotentialError
     ''Input to 'evaluateDensities' is neither a Potential-instance or a list of such instances'')
   \<and> evaluateDensities [R, z, phi] Pot = Inl (PotentialError
     ''Input to 'evaluateDensities' is neither a Potential-instance or a list of such instances'')
   \<and> evaluateRforces [R, z] Pot = Inl (PotentialError
     ''Input to 'evaluateRforces' is neither a Potential-instance or a list of such instances'')
   \<and> evaluateRforces [R, z, phi] Pot = Inl (PotentialError
     ''Input to 'evaluateRforces' is neither a Potential-instance or a list of such instances'')
   \<and> evaluatephiforces [R, z] Pot = Inl (PotentialError
     ''Input to 'evaluatephiforces' is neither a Potential-instance or a list of such instances'')
   \<and> evaluatephiforces [R, z, phi] Pot = Inl (PotentialError
     ''Input to 'evaluatephiforces' is neither a Potential-instance or a list of such instances'')
   \<and> evaluatezforces [R, z] Pot = Inl (PotentialError
     ''Input to 'evaluatezforces' is neither a Potential-instance or a list of such instances'')
   \<and> evaluatezforces [R, z, phi] Pot = Inl (PotentialError
     ''Input to 'evaluatezforces' is neither a Potential-instance or a list of such instances'')"
  using assms by (cases Pot) (simp_all add: compose_defs)

text \<open>
  The theorem at the two calls of the specification:
  \<^verbatim>\<open>evaluatePotentials(1., 0., "not a potential")\<close> and
  \<^verbatim>\<open>evaluateRforces(1., 0., 0., 42)\<close>.
\<close>

theorem invalid_input_rejected_witness:
  "(\<forall>p. PyStr ''not a potential'' \<noteq> PyPot p) \<and> (\<forall>pots. PyStr ''not a potential'' \<noteq> PyList pots)
   \<and> evaluatePotentials [Fin 1, Fin 0] (PyStr ''not a potential'') = Inl (PotentialError
     ''Input to 'evaluatePotentials' is neither a Potential-instance or a list of such instances'')
   \<and> (\<forall>p. PyInt 42 \<noteq> PyPot p) \<and> (\<forall>pots. PyInt 42 \<noteq> PyList pots)
   \<and> evaluateRforces [Fin 1, Fin 0, Fin 0] (PyInt 42) = Inl (PotentialError
     ''Input to 'evaluateRforces' is neither a Potential-instance or a list of such instances'')"
proof -
  have s: "\<forall>p. PyStr ''not a potential'' \<noteq> PyPot p" "\<forall>pots. PyStr ''not a potential'' \<noteq> PyList pots"
    by simp_all
  have i: "\<forall>p. PyInt 42 \<noteq> PyPot p" "\<forall>pots. PyInt 42 \<noteq> PyList pots"
    by simp_all
  show ?thesis
    using invalid_input_rejected [OF s, of "Fin 1" "Fin 0" "Fin 0"]
      invalid_input_rejected [OF i, of "Fin 1" "Fin 0" "Fin 0"] s i
    by simp
qed

text \<open>
  The claim as first stated covers every \<^verbatim>\<open>Pot\<close> that is not a collection of
  Potentials, so also a list that holds something else. The functions test only
  \<^verbatim>\<open>isinstance(Pot, list)\<close> and enter the loop: on \<^verbatim>\<open>[42]\<close>
  \<^verbatim>\<open>evaluatePotentials\<close> raises \<^verbatim>\<open>TypeError\<close> and \<^verbatim>\<open>evaluateRforces\<close> raises
  \<^verbatim>\<open>AttributeError\<close>, neither of them a \<^verbatim>\<open>PotentialError\<close>.
\<close>

theorem list_of_non_potentials_counterexample:
  "evaluatePotentials [Fin 1, Fin 0] (PyList [PyInt 42]) = Inl TypeError
   \<and> evaluateRforces [Fin 1, Fin 0, Fin 0] (PyList [PyInt 42]) = Inl AttributeError"
  by (simp add: compose_defs)

text \<open>
  C10. Only a list is taken as a collection: on a tuple, whatever it holds and so
  also on a tuple of Potentials, each of the five functions raises
  \<^verbatim>\<open>PotentialError\<close>, with or without \<^verbatim>\<open>phi\<close>, and sums nothing.
\<close>

theorem tuple_rejected:
  "evaluatePotentials [R, z] (PyTuple pots) = Inl (PotentialError
     ''Input to 'evaluatePotentials' is neither a Potential-instance or a list of such instances'')
   \<and> evaluatePotentials [R, z, phi] (PyTuple pots) = Inl (PotentialError
     ''Input to 'evaluatePotentials' is neither a Potential-instance or a list of such instances'')
   \<and> evaluateDensities [R, z] (PyTuple pots) = Inl (PotentialError
     ''Input to 'evaluateDensities' is neither a Potential-instance or a list of such instances'')
   \<and> evaluateDensities [R, z, phi] (PyTuple pots) = Inl (PotentialError
     ''Input to 'evaluateDensities' is neither a Potential-instance or a list of such instances'')
   \<and> evaluateRforces [R, z] (PyTuple pots) = Inl (PotentialError
     ''Input to 'evaluateRforces' is neither a Potential-instance or a list of such instances'')
   \<and> evaluateRforces [R, z, phi] (PyTuple pots) = Inl (PotentialError
     ''Input to 'evaluateRforces' is neither a Potential-instance or a list of such instances'')
   \<and> evaluatephiforces [R, z] (PyTuple pots) = Inl (PotentialError
     ''Input to 'evaluatephiforces' is neither a Potential-instance or a list of such instances'')
   \<and> evaluatephiforces [R, z, phi] (PyTuple pots) = Inl (PotentialError
     ''Input to 'evaluatephiforces' is neither a Potential-instance or a list of such instances'')
   \<and> evaluatezforces [R, z] (PyTuple pots) = Inl (PotentialError
     ''Input to 'evaluatezforces' is neither a Potential-instance or a list of such instances'')
   \<and> evaluatezforces [R, z, phi] (PyTuple pots) = Inl (PotentialError
     ''Input to 'evaluatezforces' is neither a Potential-instance or a list of such instances'')"
  by (simp add: compose_defs)

end
